theory Spec2Isabelle
  imports Main "HOL-Library.AList"
begin

section \<open>Byte strings and Python dicts\<close>

text \<open>
  A Python \<^verbatim>\<open>bytes\<close> value is a list of 8-bit characters. A Python \<^verbatim>\<open>dict\<close> is an
  association list in insertion order whose keys are unique: \<^verbatim>\<open>d[k] = v\<close> replaces the
  value in place when \<^verbatim>\<open>k\<close> is present and appends the pair otherwise, which is what
  \<^const>\<open>AList.update\<close> does. Lookup is \<^const>\<open>map_of\<close>.
\<close>

type_synonym bytes = string
type_synonym ENR_KV = "bytes \<times> bytes"
type_synonym NodeID = bytes
type_synonym kv_dict = "(bytes \<times> bytes) list"

text \<open>\<^verbatim>\<open>k in d\<close>\<close>

definition dict_contains :: "kv_dict \<Rightarrow> bytes \<Rightarrow> bool" where
  "dict_contains d k = (map_of d k \<noteq> None)"

text \<open>\<^verbatim>\<open>d[k]\<close>, which the source only evaluates behind \<^verbatim>\<open>k in d\<close>.\<close>

definition dict_getitem :: "kv_dict \<Rightarrow> bytes \<Rightarrow> bytes" where
  "dict_getitem d k = the (map_of d k)"

text \<open>\<^verbatim>\<open>d[k] = v\<close>\<close>

definition dict_setitem :: "kv_dict \<Rightarrow> bytes \<Rightarrow> bytes \<Rightarrow> kv_dict" where
  "dict_setitem d k v = AList.update k v d"

text \<open>\<^verbatim>\<open>rv.update(pairs)\<close>: the pairs are stored one after the other, in order.\<close>

definition dict_update :: "kv_dict \<Rightarrow> ENR_KV list \<Rightarrow> kv_dict" where
  "dict_update rv ps = fold (\<lambda>(k, v) acc. dict_setitem acc k v) ps rv"

text \<open>\<^verbatim>\<open>dict(kv_pairs)\<close> of a tuple of pairs: a later pair overrides an earlier one.\<close>

definition dict :: "ENR_KV list \<Rightarrow> kv_dict" where
  "dict ps = dict_update [] ps"

text \<open>
  \<^verbatim>\<open>eth_utils.toolz.merge(d1, d2)\<close>: a copy of \<^verbatim>\<open>d1\<close> updated with \<^verbatim>\<open>d2\<close>, so
  \<^verbatim>\<open>d2\<close> wins on a key of both and the keys of \<^verbatim>\<open>d1\<close> keep their place. The library
  fills an empty dict with \<^verbatim>\<open>d1\<close> first, which gives \<^verbatim>\<open>d1\<close> again when its keys are
  unique (lemma \<open>merge_as_toolz\<close> below). Likewise \<^verbatim>\<open>dict(self._enr)\<close>, the copy of
  the pairs of a record, is the list of its pairs.
\<close>

definition merge :: "kv_dict \<Rightarrow> kv_dict \<Rightarrow> kv_dict" where
  "merge d1 d2 = dict_update d1 d2"

section \<open>Records, identity schemes, the store\<close>

record UnsignedENR =
  sequence_number :: int
  kv_pairs :: kv_dict

record ENR = UnsignedENR +
  signature :: bytes

datatype error = UnknownScheme | SigningFailure | MissingPublicKey

text \<open>
  Modelled from the spec: \<^verbatim>\<open>ddht.identity_schemes\<close> is not among the sources. The
  registry resolves a scheme name to a signing function (\<open>None\<close> is a signing failure)
  and to the derivation of an identity from a public key.
\<close>

record IdentityScheme =
  sign :: "UnsignedENR \<Rightarrow> bytes \<Rightarrow> bytes option"
  derive_identity :: "bytes \<Rightarrow> NodeID"

type_synonym IdentitySchemeRegistry = "bytes \<rightharpoonup> IdentityScheme"

text \<open>
  The private key object of \<^verbatim>\<open>eth_keys\<close>, by the two values the manager reads from it:
  \<^verbatim>\<open>private_key.to_bytes()\<close> and \<^verbatim>\<open>private_key.public_key.to_compressed_bytes()\<close>.
\<close>

record PrivateKey =
  to_bytes :: bytes
  public_key_to_compressed_bytes :: bytes

text \<open>
  Modelled from the spec: \<^verbatim>\<open>ddht.enr\<close> is not among the sources. A record names its
  scheme under \<^verbatim>\<open>b"id"\<close>; a name that is absent or not registered is the error
  \<open>UnknownScheme\<close>.
\<close>

definition pick_identity_scheme :: "IdentitySchemeRegistry \<Rightarrow> kv_dict \<Rightarrow> error + IdentityScheme" where
  "pick_identity_scheme reg kv =
     (case map_of kv ''id'' of
        None \<Rightarrow> Inl UnknownScheme
      | Some name \<Rightarrow> (case reg name of None \<Rightarrow> Inl UnknownScheme | Some s \<Rightarrow> Inr s))"

text \<open>
  Modelled from the spec: \<^verbatim>\<open>ENR.node_id\<close>. The identity of a record is derived from its
  public-key field by its scheme; the public-key field is the value under the reserved
  key \<^verbatim>\<open>b"secp256k1"\<close>.
\<close>

definition enr_node_id :: "IdentitySchemeRegistry \<Rightarrow> ENR \<Rightarrow> error + NodeID" where
  "enr_node_id reg e =
     (case pick_identity_scheme reg (kv_pairs e) of
        Inl er \<Rightarrow> Inl er
      | Inr s \<Rightarrow>
          (case map_of (kv_pairs e) ''secp256k1'' of
             None \<Rightarrow> Inl MissingPublicKey
           | Some pub \<Rightarrow> Inr (derive_identity s pub)))"

text \<open>
  Modelled from the spec: \<^verbatim>\<open>UnsignedENR(...).to_signed_enr(private_key_bytes)\<close>. The
  scheme of the record is looked up, the record must carry a public-key field, and the
  scheme signs it; the signed record has the same sequence number and pairs.
\<close>

definition to_signed_enr :: "IdentitySchemeRegistry \<Rightarrow> UnsignedENR \<Rightarrow> bytes \<Rightarrow> error + ENR" where
  "to_signed_enr reg u private_key_bytes =
     (case pick_identity_scheme reg (kv_pairs u) of
        Inl er \<Rightarrow> Inl er
      | Inr s \<Rightarrow>
          (if \<not> dict_contains (kv_pairs u) ''secp256k1'' then Inl MissingPublicKey
           else
             (case sign s u private_key_bytes of
                None \<Rightarrow> Inl SigningFailure
              | Some sg \<Rightarrow>
                  Inr \<lparr>sequence_number = sequence_number u, kv_pairs = kv_pairs u,
                       signature = sg\<rparr>)))"

text \<open>
  Modelled from the spec: the record store (\<^verbatim>\<open>NodeDBAPI\<close> of \<^verbatim>\<open>ddht.abc\<close>), a mapping
  from identity to the record stored last for it. \<^verbatim>\<open>get_enr\<close> raises \<^verbatim>\<open>KeyError\<close>
  (here \<open>None\<close>) when the identity is absent; \<^verbatim>\<open>set_enr\<close> overwrites the entry of the
  record's own identity without any check.
\<close>

type_synonym NodeDB = "NodeID \<rightharpoonup> ENR"

definition get_enr :: "NodeDB \<Rightarrow> NodeID \<Rightarrow> ENR option" where
  "get_enr db n = db n"

definition set_enr :: "IdentitySchemeRegistry \<Rightarrow> NodeDB \<Rightarrow> ENR \<Rightarrow> error + NodeDB" where
  "set_enr reg db e =
     (case enr_node_id reg e of Inl er \<Rightarrow> Inl er | Inr n \<Rightarrow> Inr (db(n \<mapsto> e)))"

section \<open>The manager\<close>

text \<open>
  The calls the manager makes on its collaborators, in order. The log is not a field of
  the Python object: it records that a record was handed to the signing primitive or
  that the store was read or written.
\<close>

datatype call = ToSignedEnr UnsignedENR | GetEnr NodeID | SetEnr ENR

text \<open>
  The fields of \<^verbatim>\<open>ENRManager\<close> that \<^verbatim>\<open>__init__\<close> and \<^verbatim>\<open>update\<close> read and write.
  \<open>node_db\<close> is the content of the store the manager refers to.
\<close>

record ENRManager =
  node_db :: NodeDB
  enr :: ENR
  node_id :: NodeID
  identity_scheme_registry :: IdentitySchemeRegistry
  private_key :: PrivateKey
  calls :: "call list"

text \<open>
  The condition of \<^verbatim>\<open>update\<close>:
  \<^verbatim>\<open>any(key not in self._enr or self._enr[key] != value for key, value in kv_pairs)\<close>
\<close>

definition differs :: "ENR \<Rightarrow> ENR_KV list \<Rightarrow> bool" where
  "differs e ps =
     list_ex (\<lambda>(key, value).
       \<not> dict_contains (kv_pairs e) key \<or> dict_getitem (kv_pairs e) key \<noteq> value) ps"

text \<open>
  The unsigned record that \<^verbatim>\<open>update\<close> builds (lines 77 to 80): the next sequence
  number, and the pairs of the current record merged with the supplied ones.
\<close>

definition new_unsigned_enr :: "ENRManager \<Rightarrow> ENR_KV list \<Rightarrow> UnsignedENR" where
  "new_unsigned_enr m ps =
     \<lparr>sequence_number = sequence_number (enr m) + 1,
      kv_pairs = merge (kv_pairs (enr m)) (dict ps)\<rparr>"

text \<open>
  \<^verbatim>\<open>ENRManager.update\<close>. The result is the returned record or the exception raised, with
  the state of the manager at that point: an exception of \<^verbatim>\<open>to_signed_enr\<close> is raised
  before \<^verbatim>\<open>self._enr\<close> is assigned.
\<close>

definition update :: "ENRManager \<Rightarrow> ENR_KV list \<Rightarrow> (error + ENR) \<times> ENRManager" where
  "update m ps =
     (if differs (enr m) ps then
        (let u = new_unsigned_enr m ps;
             m1 = m\<lparr>calls := calls m @ [ToSignedEnr u]\<rparr>
         in case to_signed_enr (identity_scheme_registry m) u (to_bytes (private_key m)) of
              Inl er \<Rightarrow> (Inl er, m1)
            | Inr new \<Rightarrow>
                (let m2 = m1\<lparr>enr := new, calls := calls m1 @ [SetEnr new]\<rparr>
                 in case set_enr (identity_scheme_registry m) (node_db m) new of
                      Inl er \<Rightarrow> (Inl er, m2)
                    | Inr db \<Rightarrow> (Inr new, m2\<lparr>node_db := db\<rparr>)))
      else (Inr (enr m), m))"

text \<open>The caller's initial pairs (lines 41 and 42): no mapping stands for the empty one.\<close>

definition caller_pairs :: "kv_dict option \<Rightarrow> kv_dict" where
  "caller_pairs kv_opt = (case kv_opt of None \<Rightarrow> [] | Some d \<Rightarrow> d)"

text \<open>The identity-scheme pairs of \<^verbatim>\<open>__init__\<close> (lines 44 to 50).\<close>

definition identity_kv_pairs :: "PrivateKey \<Rightarrow> kv_dict \<Rightarrow> kv_dict" where
  "identity_kv_pairs pk kv =
     (if dict_contains kv ''id'' then []
      else [(''id'', ''v4''), (''secp256k1'', public_key_to_compressed_bytes pk)])"

text \<open>The unsigned minimal record of \<^verbatim>\<open>__init__\<close> (lines 52 to 55).\<close>

definition minimal_unsigned_enr :: "PrivateKey \<Rightarrow> kv_dict \<Rightarrow> UnsignedENR" where
  "minimal_unsigned_enr pk kv =
     \<lparr>sequence_number = 1, kv_pairs = merge (identity_kv_pairs pk kv) kv\<rparr>"

text \<open>
  \<^verbatim>\<open>ENRManager.__init__\<close>. \<open>Inl\<close> is the exception that ends the construction. In the
  \<^verbatim>\<open>else\<close> branch of the \<^verbatim>\<open>try\<close> the stored record becomes current and \<^verbatim>\<open>update\<close> is
  called with \<^verbatim>\<open>dict(minimal_enr).items()\<close>, the pairs of the minimal record.
\<close>

definition ENRManager_init ::
  "NodeDB \<Rightarrow> PrivateKey \<Rightarrow> kv_dict option \<Rightarrow> IdentitySchemeRegistry \<Rightarrow> error + ENRManager" where
  "ENRManager_init db pk kv_opt reg =
     (let kv = caller_pairs kv_opt;
          u = minimal_unsigned_enr pk kv
      in case to_signed_enr reg u (to_bytes pk) of
           Inl er \<Rightarrow> Inl er
         | Inr minimal_enr \<Rightarrow>
             (case enr_node_id reg minimal_enr of
                Inl er \<Rightarrow> Inl er
              | Inr n \<Rightarrow>
                  (let m = \<lparr>node_db = db, enr = minimal_enr, node_id = n,
                            identity_scheme_registry = reg, private_key = pk,
                            calls = [ToSignedEnr u, GetEnr n]\<rparr>
                   in case get_enr db n of
                        None \<Rightarrow>
                          (case set_enr reg db minimal_enr of
                             Inl er \<Rightarrow> Inl er
                           | Inr db' \<Rightarrow>
                               Inr (m\<lparr>node_db := db', calls := calls m @ [SetEnr minimal_enr]\<rparr>))
                      | Some base_enr \<Rightarrow>
                          (case update (m\<lparr>enr := base_enr\<rparr>) (kv_pairs minimal_enr) of
                             (Inl er, m') \<Rightarrow> Inl er
                           | (Inr r, m') \<Rightarrow> Inr m'))))"

text \<open>A caller that makes one \<^verbatim>\<open>update\<close> call after the other on the same manager.\<close>

fun update_calls :: "ENRManager \<Rightarrow> ENR_KV list list \<Rightarrow> ENRManager" where
  "update_calls m [] = m"
| "update_calls m (ps # rest) = update_calls (snd (update m ps)) rest"

section \<open>A small identity scheme for concrete runs\<close>

text \<open>
  A signing function that fails on an empty key and otherwise returns the key followed
  by one mark for each unit of the sequence number, and an identity that is the public
  key behind a prefix.
\<close>

definition toy_scheme :: IdentityScheme where
  "toy_scheme =
     \<lparr>sign = (\<lambda>u key. if key = [] then None
                      else Some (key @ replicate (nat (sequence_number u)) CHR ''+'')),
      derive_identity = (\<lambda>pub. ''node-'' @ pub)\<rparr>"

text \<open>Two scheme names that sign and derive identities alike.\<close>

definition toy_registry :: IdentitySchemeRegistry where
  "toy_registry = [''v4'' \<mapsto> toy_scheme, ''v4-compat'' \<mapsto> toy_scheme]"

definition key_K :: PrivateKey where
  "key_K = \<lparr>to_bytes = ''k'', public_key_to_compressed_bytes = ''P''\<rparr>"

text \<open>A key whose raw bytes are malformed (empty): signing with it fails.\<close>

definition key_bad :: PrivateKey where
  "key_bad = \<lparr>to_bytes = [], public_key_to_compressed_bytes = ''P''\<rparr>"

definition empty_db :: NodeDB where
  "empty_db = Map.empty"

text \<open>
  The manager that \<^verbatim>\<open>__init__\<close> builds from \<open>key_K\<close>, no initial pairs and an empty
  store.
\<close>

definition enr_K :: ENR where
  "enr_K = \<lparr>sequence_number = 1, kv_pairs = [(''id'', ''v4''), (''secp256k1'', ''P'')],
            signature = ''k+''\<rparr>"

definition manager_K :: ENRManager where
  "manager_K =
     \<lparr>node_db = [''node-P'' \<mapsto> enr_K],
      enr = enr_K,
      node_id = ''node-P'',
      identity_scheme_registry = toy_registry,
      private_key = key_K,
      calls = [ToSignedEnr \<lparr>sequence_number = 1,
                 kv_pairs = [(''id'', ''v4''), (''secp256k1'', ''P'')]\<rparr>,
               GetEnr ''node-P'', SetEnr enr_K]\<rparr>"

text \<open>
  A store that holds, under the identity of \<open>key_K\<close>, a record with sequence number 5
  that names the second scheme.
\<close>

definition base5 :: ENR where
  "base5 = \<lparr>sequence_number = 5,
             kv_pairs = [(''id'', ''v4-compat''), (''secp256k1'', ''P'')],
             signature = ''old''\<rparr>"

definition db5 :: NodeDB where
  "db5 = [''node-P'' \<mapsto> base5]"

text \<open>The same manager holding the malformed key.\<close>

definition manager_bad :: ENRManager where
  "manager_bad = manager_K\<lparr>private_key := key_bad\<rparr>"

text \<open>
  The number of calls in a sequence of \<^verbatim>\<open>update\<close> calls that find a difference and
  return a record.
\<close>

fun effective_count :: "ENRManager \<Rightarrow> ENR_KV list list \<Rightarrow> nat" where
  "effective_count m [] = 0"
| "effective_count m (ps # rest) =
     (if differs (enr m) ps \<and> \<not> isl (fst (update m ps)) then 1 else 0)
     + effective_count (snd (update m ps)) rest"

text \<open>
  The manager whose current record is the stored record of sequence number 5, and the
  manager \<open>manager_K\<close> after the pair \<^verbatim>\<open>(b"foo", b"bar")\<close> was applied.
\<close>

definition manager5 :: ENRManager where
  "manager5 =
     \<lparr>node_db = db5, enr = base5, node_id = ''node-P'',
      identity_scheme_registry = toy_registry, private_key = key_K, calls = []\<rparr>"

definition manager_foo :: ENRManager where
  "manager_foo = snd (update manager_K [(''foo'', ''bar'')])"

section \<open>Working signers and the expected count\<close>

text \<open>
  Signing a record whose pairs are \<open>d\<close> with the key \<open>key\<close> cannot fail: the scheme
  named under \<^verbatim>\<open>b"id"\<close> is registered and signs every record with that key, and the
  record has a public-key field.
\<close>

definition can_sign :: "IdentitySchemeRegistry \<Rightarrow> bytes \<Rightarrow> (bytes \<rightharpoonup> bytes) \<Rightarrow> bool" where
  "can_sign reg key d \<longleftrightarrow>
     (\<exists>name s. d ''id'' = Some name \<and> reg name = Some s \<and> (\<forall>u. sign s u key \<noteq> None))
     \<and> d ''secp256k1'' \<noteq> None"

text \<open>
  What the spec expects of a sequence of \<^verbatim>\<open>update\<close> calls on a record with the pairs
  \<open>d\<close>: a call counts when one of its pairs is absent from the pairs so far or has
  another value there, and it then leaves the pairs merged with its own.
\<close>

fun count_effective :: "kv_dict \<Rightarrow> ENR_KV list list \<Rightarrow> nat" where
  "count_effective d [] = 0"
| "count_effective d (ps # rest) =
     (if list_ex (\<lambda>(k, v). map_of d k \<noteq> Some v) ps
      then Suc (count_effective (merge d (dict ps)) rest)
      else count_effective d rest)"

section \<open>Facts about dicts\<close>

lemma pair_differs_iff:
  "(\<not> dict_contains d k \<or> dict_getitem d k \<noteq> v) \<longleftrightarrow> map_of d k \<noteq> Some v"
  by (cases "map_of d k") (simp_all add: dict_contains_def dict_getitem_def)

lemma differs_iff:
  "differs e ps \<longleftrightarrow> (\<exists>(k, v) \<in> set ps. map_of (kv_pairs e) k \<noteq> Some v)"
proof -
  have "\<And>x. (\<not> dict_contains (kv_pairs e) (fst x) \<or> dict_getitem (kv_pairs e) (fst x) \<noteq> snd x)
      \<longleftrightarrow> map_of (kv_pairs e) (fst x) \<noteq> Some (snd x)"
    by (rule pair_differs_iff)
  then show ?thesis
    unfolding differs_def list_ex_iff case_prod_beta by blast
qed

lemma map_of_dict_update:
  "map_of (dict_update rv ps) = map_of rv ++ map_of (rev ps)"
proof (induction ps arbitrary: rv)
  case Nil
  show ?case by (simp add: dict_update_def)
next
  case (Cons p ps)
  obtain k v where p: "p = (k, v)" by (cases p)
  have "dict_update rv (p # ps) = dict_update (AList.update k v rv) ps"
    by (simp add: dict_update_def dict_setitem_def p)
  then show ?case
    using Cons.IH [of "AList.update k v rv"]
    by (simp add: p update_conv' map_add_upd_left map_add_def fun_eq_iff split: option.splits)
qed

lemma update_absent_appends:
  "map_of d k = None \<Longrightarrow> AList.update k v d = d @ [(k, v)]"
  by (induction d) (auto split: if_splits)

lemma merge_dict_single: "merge d (dict [(k, v)]) = AList.update k v d"
  by (simp add: merge_def dict_def dict_update_def dict_setitem_def)

lemma map_of_rev_distinct:
  assumes "distinct (map fst xs)"
  shows "map_of (rev xs) = map_of xs"
proof -
  have "distinct (map fst (rev xs))"
    using assms by (metis distinct_rev rev_map)
  then show ?thesis
    using assms by (simp add: map_of_inject_set)
qed

lemma map_of_merge:
  assumes "distinct (map fst d2)"
  shows "map_of (merge d1 d2) = map_of d1 ++ map_of d2"
  using assms by (simp add: merge_def map_of_dict_update map_of_rev_distinct)

lemma distinct_dict_update:
  "distinct (map fst rv) \<Longrightarrow> distinct (map fst (dict_update rv ps))"
proof (induction ps arbitrary: rv)
  case Nil
  then show ?case by (simp add: dict_update_def)
next
  case (Cons p ps)
  obtain k v where p: "p = (k, v)" by (cases p)
  have "dict_update rv (p # ps) = dict_update (AList.update k v rv) ps"
    by (simp add: dict_update_def dict_setitem_def p)
  then show ?case
    using Cons.IH [of "AList.update k v rv"] Cons.prems by (simp add: distinct_update)
qed

lemma distinct_dict: "distinct (map fst (dict ps))"
  by (simp add: dict_def distinct_dict_update)

lemma map_of_dict: "map_of (dict ps) = map_of (rev ps)"
  by (simp add: dict_def map_of_dict_update)

lemma map_of_merge_dict: "map_of (merge d (dict ps)) = map_of d ++ map_of (rev ps)"
  by (simp add: map_of_merge distinct_dict map_of_dict)

lemma distinct_identity_kv_pairs: "distinct (map fst (identity_kv_pairs pk kv))"
  by (simp add: identity_kv_pairs_def)

lemma distinct_minimal: "distinct (map fst (kv_pairs (minimal_unsigned_enr pk kv)))"
  by (simp add: minimal_unsigned_enr_def merge_def distinct_dict_update distinct_identity_kv_pairs)

lemma dict_update_distinct:
  "distinct (map fst (acc @ ps)) \<Longrightarrow> dict_update acc ps = acc @ ps"
proof (induction ps arbitrary: acc)
  case Nil
  show ?case by (simp add: dict_update_def)
next
  case (Cons p ps)
  obtain k v where p: "p = (k, v)" by (cases p)
  have "k \<notin> fst ` set acc"
    using Cons.prems by (auto simp: p)
  then have "map_of acc k = None"
    by (simp add: map_of_eq_None_iff)
  then have a: "AList.update k v acc = acc @ [(k, v)]"
    by (rule update_absent_appends)
  have "dict_update acc (p # ps) = dict_update (acc @ [(k, v)]) ps"
    by (simp add: dict_update_def dict_setitem_def p a)
  then show ?case
    using Cons.IH [of "acc @ [(k, v)]"] Cons.prems by (simp add: p)
qed

lemma merge_empty_left: "distinct (map fst d) \<Longrightarrow> merge [] d = d"
  using dict_update_distinct [of "[]" d] by (simp add: merge_def)

lemma merge_as_toolz:
  "distinct (map fst d1) \<Longrightarrow> dict_update (dict_update [] d1) d2 = merge d1 d2"
  using dict_update_distinct [of "[]" d1] by (simp add: merge_def)

section \<open>The three outcomes of update\<close>

lemma to_signed_enr_fields:
  assumes "to_signed_enr reg u pkb = Inr e"
  shows "sequence_number e = sequence_number u" and "kv_pairs e = kv_pairs u"
  using assms
  by (auto simp: to_signed_enr_def split: sum.splits if_splits option.splits)

lemma to_signed_enr_node_id:
  assumes "to_signed_enr reg u pkb = Inr e"
  shows "\<exists>n. enr_node_id reg e = Inr n"
  using assms
  by (auto simp: to_signed_enr_def enr_node_id_def dict_contains_def
      split: sum.splits if_splits option.splits)

lemma update_unchanged:
  "\<not> differs (enr m) ps \<Longrightarrow> update m ps = (Inr (enr m), m)"
  by (simp add: update_def)

lemma update_failed:
  assumes "differs (enr m) ps"
    and "to_signed_enr (identity_scheme_registry m) (new_unsigned_enr m ps)
           (to_bytes (private_key m)) = Inl er"
  shows "update m ps = (Inl er, m\<lparr>calls := calls m @ [ToSignedEnr (new_unsigned_enr m ps)]\<rparr>)"
  using assms by (simp add: update_def Let_def)

lemma update_signed:
  assumes "differs (enr m) ps"
    and "to_signed_enr (identity_scheme_registry m) (new_unsigned_enr m ps)
           (to_bytes (private_key m)) = Inr new"
  shows "\<exists>n. enr_node_id (identity_scheme_registry m) new = Inr n \<and>
           update m ps =
             (Inr new,
              m\<lparr>calls := calls m @ [ToSignedEnr (new_unsigned_enr m ps), SetEnr new],
                enr := new, node_db := (node_db m)(n \<mapsto> new)\<rparr>)"
proof -
  obtain n where n: "enr_node_id (identity_scheme_registry m) new = Inr n"
    using to_signed_enr_node_id [OF assms(2)] by blast
  show ?thesis
    using assms n by (simp add: update_def Let_def set_enr_def)
qed

lemma update_sequence_number_cases:
  "sequence_number (enr (snd (update m ps))) =
     sequence_number (enr m) + (if differs (enr m) ps \<and> \<not> isl (fst (update m ps)) then 1 else 0)"
proof (cases "differs (enr m) ps")
  case False
  then show ?thesis by (simp add: update_unchanged)
next
  case True
  show ?thesis
  proof (cases "to_signed_enr (identity_scheme_registry m) (new_unsigned_enr m ps)
           (to_bytes (private_key m))")
    case (Inl er)
    show ?thesis using update_failed [OF True Inl] True by simp
  next
    case (Inr new)
    from update_signed [OF True Inr] to_signed_enr_fields(1) [OF Inr] True
    show ?thesis by (auto simp: new_unsigned_enr_def)
  qed
qed

lemma update_error_keeps:
  assumes f: "isl (fst (update m ps))"
  shows "enr (snd (update m ps)) = enr m \<and> node_db (snd (update m ps)) = node_db m"
proof -
  have d: "differs (enr m) ps"
  proof (rule ccontr)
    assume "\<not> differs (enr m) ps"
    then have "update m ps = (Inr (enr m), m)" by (rule update_unchanged)
    with f show False by simp
  qed
  show ?thesis
  proof (cases "to_signed_enr (identity_scheme_registry m) (new_unsigned_enr m ps)
           (to_bytes (private_key m))")
    case (Inl er')
    show ?thesis using update_failed [OF d Inl] by simp
  next
    case (Inr new)
    from update_signed [OF d Inr] f show ?thesis by auto
  qed
qed

lemma to_signed_enr_ok:
  assumes "pick_identity_scheme reg (kv_pairs u) = Inr s"
    and "dict_contains (kv_pairs u) ''secp256k1''"
    and "sign s u pkb = Some sg"
  shows "to_signed_enr reg u pkb =
           Inr \<lparr>sequence_number = sequence_number u, kv_pairs = kv_pairs u, signature = sg\<rparr>"
  using assms by (simp add: to_signed_enr_def)

lemma to_signed_enr_has_keys:
  assumes "to_signed_enr reg u pkb = Inr e"
  shows "map_of (kv_pairs e) ''id'' \<noteq> None" and "map_of (kv_pairs e) ''secp256k1'' \<noteq> None"
  using assms
  by (auto simp: to_signed_enr_def pick_identity_scheme_def dict_contains_def
      split: sum.splits if_splits option.splits)

lemma enr_node_id_cong:
  assumes "map_of (kv_pairs a) ''id'' = map_of (kv_pairs b) ''id''"
    and "map_of (kv_pairs a) ''secp256k1'' = map_of (kv_pairs b) ''secp256k1''"
  shows "enr_node_id reg a = enr_node_id reg b"
  unfolding enr_node_id_def pick_identity_scheme_def assms ..

lemma update_fields:
  "node_id (snd (update m ps)) = node_id m"
  "identity_scheme_registry (snd (update m ps)) = identity_scheme_registry m"
  "private_key (snd (update m ps)) = private_key m"
  by (auto simp: update_def Let_def split: sum.splits)


section \<open>The outcomes of the construction\<close>

lemma init_created:
  assumes "to_signed_enr reg (minimal_unsigned_enr pk (caller_pairs kv_opt)) (to_bytes pk) = Inr me"
    and "enr_node_id reg me = Inr n"
    and "db n = None"
  shows "ENRManager_init db pk kv_opt reg =
           Inr \<lparr>node_db = db(n \<mapsto> me), enr = me, node_id = n,
                identity_scheme_registry = reg, private_key = pk,
                calls = [ToSignedEnr (minimal_unsigned_enr pk (caller_pairs kv_opt)),
                         GetEnr n, SetEnr me]\<rparr>"
  using assms by (simp add: ENRManager_init_def Let_def get_enr_def set_enr_def)

lemma init_found:
  assumes "to_signed_enr reg (minimal_unsigned_enr pk (caller_pairs kv_opt)) (to_bytes pk) = Inr me"
    and "enr_node_id reg me = Inr n"
    and "db n = Some base_enr"
  shows "ENRManager_init db pk kv_opt reg =
           (case update
                   \<lparr>node_db = db, enr = base_enr, node_id = n,
                    identity_scheme_registry = reg, private_key = pk,
                    calls = [ToSignedEnr (minimal_unsigned_enr pk (caller_pairs kv_opt)),
                             GetEnr n]\<rparr>
                   (kv_pairs me) of
              (Inl er, m') \<Rightarrow> Inl er
            | (Inr r, m') \<Rightarrow> Inr m')"
  using assms by (simp add: ENRManager_init_def Let_def get_enr_def)

lemma init_returns:
  assumes "ENRManager_init db pk kv_opt reg = Inr m"
  obtains me n where
    "to_signed_enr reg (minimal_unsigned_enr pk (caller_pairs kv_opt)) (to_bytes pk) = Inr me"
    "enr_node_id reg me = Inr n"
  using assms
  by (auto simp: ENRManager_init_def Let_def split: sum.splits)


lemma update_keeps_entry:
  assumes "node_db m (node_id m) = Some (enr m)"
    and "enr_node_id (identity_scheme_registry m) (enr (snd (update m ps))) = Inr (node_id m)"
  shows "node_db (snd (update m ps)) (node_id (snd (update m ps))) = Some (enr (snd (update m ps)))"
proof (cases "differs (enr m) ps")
  case False
  then show ?thesis using assms(1) by (simp add: update_unchanged)
next
  case True
  show ?thesis
  proof (cases "to_signed_enr (identity_scheme_registry m) (new_unsigned_enr m ps)
           (to_bytes (private_key m))")
    case (Inl er)
    show ?thesis using update_failed [OF True Inl] assms(1) by simp
  next
    case (Inr new)
    from update_signed [OF True Inr] assms(2)
    show ?thesis by auto
  qed
qed

lemma init_keeps_entry:
  assumes "ENRManager_init db pk kv_opt reg = Inr m"
  shows "node_db m (node_id m) = Some (enr m) \<and> enr_node_id reg (enr m) = Inr (node_id m)"
proof -
  let ?u = "minimal_unsigned_enr pk (caller_pairs kv_opt)"
  from assms obtain me n where
    me: "to_signed_enr reg ?u (to_bytes pk) = Inr me"
    and n: "enr_node_id reg me = Inr n"
    by (rule init_returns)
  show ?thesis
  proof (cases "db n")
    case None
    show ?thesis using init_created [where db = db, OF me n None] assms n by auto
  next
    case (Some base_enr)
    let ?m0 = "\<lparr>node_db = db, enr = base_enr, node_id = n,
                    identity_scheme_registry = reg, private_key = pk,
                    calls = [ToSignedEnr ?u, GetEnr n]\<rparr>"
    from init_found [where db = db, OF me n Some] assms
    have m: "m = snd (update ?m0 (kv_pairs me))" and ok: "\<not> isl (fst (update ?m0 (kv_pairs me)))"
      by (auto split: prod.splits sum.splits)
    have dist: "distinct (map fst (kv_pairs me))"
      using to_signed_enr_fields(2) [OF me] by (simp add: distinct_minimal)
    have "enr_node_id reg (enr m) = Inr n"
    proof (cases "differs base_enr (kv_pairs me)")
      case False
      then have same: "\<forall>(k, v) \<in> set (kv_pairs me). map_of (kv_pairs base_enr) k = Some v"
        by (auto simp: differs_iff)
      have "map_of (kv_pairs base_enr) k = map_of (kv_pairs me) k"
        if "map_of (kv_pairs me) k \<noteq> None" for k
      proof -
        from that obtain v where v: "map_of (kv_pairs me) k = Some v" by auto
        then have "(k, v) \<in> set (kv_pairs me)" by (rule map_of_SomeD)
        with same v show ?thesis by auto
      qed
      then have "enr_node_id reg base_enr = enr_node_id reg me"
        using to_signed_enr_has_keys [OF me] by (intro enr_node_id_cong) auto
      moreover have "enr m = base_enr"
        using False m by (simp add: update_unchanged)
      ultimately show ?thesis using n by simp
    next
      case True
      then have d: "differs (enr ?m0) (kv_pairs me)" by simp
      show ?thesis
      proof (cases "to_signed_enr (identity_scheme_registry ?m0) (new_unsigned_enr ?m0 (kv_pairs me))
           (to_bytes (private_key ?m0))")
        case (Inl er)
        show ?thesis using update_failed [OF d Inl] ok by simp
      next
        case (Inr new)
        from update_signed [OF d Inr] m have cur: "enr m = new" by auto
        have "map_of (kv_pairs new) = map_of (kv_pairs base_enr) ++ map_of (kv_pairs me)"
          using to_signed_enr_fields(2) [OF Inr] dist
          by (simp add: new_unsigned_enr_def map_of_merge_dict map_of_rev_distinct)
        then have "map_of (kv_pairs new) k = map_of (kv_pairs me) k"
          if "map_of (kv_pairs me) k \<noteq> None" for k
          using that by (auto simp: map_add_def split: option.splits)
        then have "enr_node_id reg new = enr_node_id reg me"
          using to_signed_enr_has_keys [OF me] by (intro enr_node_id_cong) auto
        then show ?thesis using cur n by simp
      qed
    qed
    moreover have "node_db ?m0 (node_id ?m0) = Some (enr ?m0)"
      using Some by simp
    ultimately show ?thesis
      using update_keeps_entry [of ?m0 "kv_pairs me"] m by (simp add: update_fields)
  qed
qed

lemma update_keeps_identity:
  assumes "enr_node_id (identity_scheme_registry m) (enr m) = Inr (node_id m)"
    and "\<forall>(k, v) \<in> set ps. k \<noteq> ''id'' \<and> k \<noteq> ''secp256k1''"
  shows "enr_node_id (identity_scheme_registry m) (enr (snd (update m ps))) = Inr (node_id m)"
proof (cases "differs (enr m) ps")
  case False
  then show ?thesis using assms(1) by (simp add: update_unchanged)
next
  case True
  show ?thesis
  proof (cases "to_signed_enr (identity_scheme_registry m) (new_unsigned_enr m ps)
           (to_bytes (private_key m))")
    case (Inl er)
    show ?thesis using update_failed [OF True Inl] assms(1) by simp
  next
    case (Inr new)
    from update_signed [OF True Inr] have cur: "enr (snd (update m ps)) = new" by auto
    have kv: "map_of (kv_pairs new) = map_of (kv_pairs (enr m)) ++ map_of (rev ps)"
      using to_signed_enr_fields(2) [OF Inr]
      by (simp add: new_unsigned_enr_def map_of_merge_dict)
    have none: "map_of (rev ps) k = None" if "k = ''id'' \<or> k = ''secp256k1''" for k
      using that assms(2) by (auto simp: map_of_eq_None_iff)
    have "enr_node_id (identity_scheme_registry m) new = enr_node_id (identity_scheme_registry m) (enr m)"
      by (rule enr_node_id_cong) (simp_all add: kv map_add_def none)
    then show ?thesis using cur assms(1) by simp
  qed
qed

section \<open>Updates under a working signer\<close>

lemma differs_list_ex:
  "differs e ps \<longleftrightarrow> list_ex (\<lambda>(k, v). map_of (kv_pairs e) k \<noteq> Some v) ps"
  by (simp add: differs_iff list_ex_iff)

lemma to_signed_enr_total:
  assumes "can_sign reg key (map_of (kv_pairs u))"
  shows "\<exists>sg. to_signed_enr reg u key =
           Inr \<lparr>sequence_number = sequence_number u, kv_pairs = kv_pairs u, signature = sg\<rparr>"
proof -
  from assms obtain name s where
    id: "map_of (kv_pairs u) ''id'' = Some name" and reg: "reg name = Some s"
    and sg: "\<forall>u. sign s u key \<noteq> None" and pub: "map_of (kv_pairs u) ''secp256k1'' \<noteq> None"
    unfolding can_sign_def by blast
  obtain sg0 where sg0: "sign s u key = Some sg0"
    using sg by blast
  have pick: "pick_identity_scheme reg (kv_pairs u) = Inr s"
    using id reg by (simp add: pick_identity_scheme_def)
  have "dict_contains (kv_pairs u) ''secp256k1''"
    using pub by (simp add: dict_contains_def)
  from to_signed_enr_ok [OF pick this sg0] show ?thesis by blast
qed

lemma update_returns:
  assumes d: "differs (enr m) ps"
    and c: "can_sign (identity_scheme_registry m) (to_bytes (private_key m))
              (map_of (kv_pairs (enr m)) ++ map_of (rev ps))"
  shows "\<exists>e m'. update m ps = (Inr e, m') \<and> enr m' = e
           \<and> sequence_number e = sequence_number (enr m) + 1
           \<and> kv_pairs e = merge (kv_pairs (enr m)) (dict ps)"
proof -
  let ?u = "new_unsigned_enr m ps"
  have "map_of (kv_pairs ?u) = map_of (kv_pairs (enr m)) ++ map_of (rev ps)"
    by (simp add: new_unsigned_enr_def map_of_merge_dict)
  with c have "can_sign (identity_scheme_registry m) (to_bytes (private_key m)) (map_of (kv_pairs ?u))"
    by simp
  from to_signed_enr_total [OF this] obtain sg where
    new: "to_signed_enr (identity_scheme_registry m) ?u (to_bytes (private_key m)) =
            Inr \<lparr>sequence_number = sequence_number ?u, kv_pairs = kv_pairs ?u, signature = sg\<rparr>"
    by blast
  from update_signed [OF d new] show ?thesis
    by (auto simp: new_unsigned_enr_def)
qed

lemma can_sign_keeps:
  assumes "can_sign reg key d" and "\<forall>(k, v) \<in> set ps. k \<noteq> ''id''"
  shows "can_sign reg key (d ++ map_of (rev ps))"
proof -
  have "map_of (rev ps) ''id'' = None"
    using assms(2) by (auto simp: map_of_eq_None_iff)
  then have "(d ++ map_of (rev ps)) ''id'' = d ''id''"
    by (simp add: map_add_def)
  moreover have "(d ++ map_of (rev ps)) ''secp256k1'' \<noteq> None"
    using assms(1) by (auto simp: can_sign_def map_add_def split: option.splits)
  ultimately show ?thesis
    using assms(1) by (simp add: can_sign_def)
qed

lemma update_calls_count:
  assumes "can_sign (identity_scheme_registry m) (to_bytes (private_key m))
             (map_of (kv_pairs (enr m)))"
    and "\<forall>ps \<in> set css. \<forall>(k, v) \<in> set ps. k \<noteq> ''id''"
  shows "sequence_number (enr (update_calls m css)) =
           sequence_number (enr m) + int (count_effective (kv_pairs (enr m)) css)"
  using assms
proof (induction css arbitrary: m)
  case Nil
  show ?case by simp
next
  case (Cons ps css)
  have noid: "\<forall>(k, v) \<in> set ps. k \<noteq> ''id''" and rest: "\<forall>ps \<in> set css. \<forall>(k, v) \<in> set ps. k \<noteq> ''id''"
    using Cons.prems(2) by simp_all
  show ?case
  proof (cases "differs (enr m) ps")
    case False
    then have "update m ps = (Inr (enr m), m)" by (rule update_unchanged)
    moreover have "\<not> list_ex (\<lambda>(k, v). map_of (kv_pairs (enr m)) k \<noteq> Some v) ps"
      using False by (simp add: differs_list_ex)
    ultimately show ?thesis
      using Cons.IH [OF Cons.prems(1) rest] by simp
  next
    case True
    have c: "can_sign (identity_scheme_registry m) (to_bytes (private_key m))
              (map_of (kv_pairs (enr m)) ++ map_of (rev ps))"
      using can_sign_keeps [OF Cons.prems(1) noid] .
    from update_returns [OF True c] obtain e m' where
      u: "update m ps = (Inr e, m')" and cur: "enr m' = e"
      and sq: "sequence_number e = sequence_number (enr m) + 1"
      and kv: "kv_pairs e = merge (kv_pairs (enr m)) (dict ps)"
      by blast
    have m': "m' = snd (update m ps)" using u by simp
    have "can_sign (identity_scheme_registry m') (to_bytes (private_key m'))
             (map_of (kv_pairs (enr m')))"
      using c by (simp add: m' update_fields cur [unfolded m'] kv map_of_merge_dict)
    from Cons.IH [OF this rest]
    have "sequence_number (enr (update_calls m' css)) =
            sequence_number e + int (count_effective (merge (kv_pairs (enr m)) (dict ps)) css)"
      by (simp add: cur kv)
    moreover have "list_ex (\<lambda>(k, v). map_of (kv_pairs (enr m)) k \<noteq> Some v) ps"
      using True by (simp add: differs_list_ex)
    ultimately show ?thesis
      using u sq by simp
  qed
qed

lemma update_single_result:
  assumes "update m [(k, v)] = (Inr e, m')"
    and "differs (enr m) [(k, v)]"
  shows "enr m' = e \<and> kv_pairs e = AList.update k v (kv_pairs (enr m))"
proof (cases "to_signed_enr (identity_scheme_registry m) (new_unsigned_enr m [(k, v)])
           (to_bytes (private_key m))")
  case (Inl er)
  show ?thesis using update_failed [OF assms(2) Inl] assms(1) by simp
next
  case (Inr new)
  from update_signed [OF assms(2) Inr] assms(1)
  have e: "e = new" and m': "enr m' = new" by auto
  have kv: "kv_pairs new = AList.update k v (kv_pairs (enr m))"
    using to_signed_enr_fields(2) [OF Inr]
    by (simp add: new_unsigned_enr_def merge_dict_single)
  show ?thesis using e m' kv by simp
qed

lemma update_present_keys:
  "map_of d k \<noteq> None \<Longrightarrow> map fst (AList.update k v d) = map fst d"
  by (simp add: update_keys map_of_eq_None_iff)

lemma differs_single: "differs e [(k, v)] \<longleftrightarrow> map_of (kv_pairs e) k \<noteq> Some v"
  by (simp add: differs_iff)




section \<open>Concrete runs\<close>

lemmas run_defs =
  update_def differs_def dict_contains_def dict_getitem_def new_unsigned_enr_def merge_def
  dict_def dict_update_def dict_setitem_def to_signed_enr_def pick_identity_scheme_def
  set_enr_def get_enr_def enr_node_id_def toy_registry_def toy_scheme_def key_K_def key_bad_def
  manager_K_def manager_bad_def manager5_def enr_K_def base5_def db5_def empty_db_def
  identity_kv_pairs_def minimal_unsigned_enr_def caller_pairs_def Let_def

lemma init_manager_K: "ENRManager_init empty_db key_K None toy_registry = Inr manager_K"
  by (simp add: ENRManager_init_def run_defs)

lemma update_manager_K_foo:
  "update manager_K [(''foo'', ''bar'')] =
     (Inr \<lparr>sequence_number = 2,
            kv_pairs = [(''id'', ''v4''), (''secp256k1'', ''P''), (''foo'', ''bar'')],
            signature = ''k++''\<rparr>,
      manager_K\<lparr>
        calls := calls manager_K @
          [ToSignedEnr \<lparr>sequence_number = 2,
             kv_pairs = [(''id'', ''v4''), (''secp256k1'', ''P''), (''foo'', ''bar'')]\<rparr>,
           SetEnr \<lparr>sequence_number = 2,
             kv_pairs = [(''id'', ''v4''), (''secp256k1'', ''P''), (''foo'', ''bar'')],
             signature = ''k++''\<rparr>],
        enr := \<lparr>sequence_number = 2,
            kv_pairs = [(''id'', ''v4''), (''secp256k1'', ''P''), (''foo'', ''bar'')],
            signature = ''k++''\<rparr>,
        node_db := (node_db manager_K)(''node-P'' \<mapsto> \<lparr>sequence_number = 2,
            kv_pairs = [(''id'', ''v4''), (''secp256k1'', ''P''), (''foo'', ''bar'')],
            signature = ''k++''\<rparr>)\<rparr>)"
  by (simp add: run_defs numeral_2_eq_2)

lemma init_db5:
  "ENRManager_init db5 key_K None toy_registry =
     Inr \<lparr>node_db = db5(''node-P'' \<mapsto>
              \<lparr>sequence_number = 6, kv_pairs = [(''id'', ''v4''), (''secp256k1'', ''P'')],
               signature = ''k++++++''\<rparr>),
          enr = \<lparr>sequence_number = 6, kv_pairs = [(''id'', ''v4''), (''secp256k1'', ''P'')],
                 signature = ''k++++++''\<rparr>,
          node_id = ''node-P'',
          identity_scheme_registry = toy_registry,
          private_key = key_K,
          calls = [ToSignedEnr \<lparr>sequence_number = 1,
                     kv_pairs = [(''id'', ''v4''), (''secp256k1'', ''P'')]\<rparr>,
                   GetEnr ''node-P'',
                   ToSignedEnr \<lparr>sequence_number = 6,
                     kv_pairs = [(''id'', ''v4''), (''secp256k1'', ''P'')]\<rparr>,
                   SetEnr \<lparr>sequence_number = 6,
                     kv_pairs = [(''id'', ''v4''), (''secp256k1'', ''P'')],
                     signature = ''k++++++''\<rparr>]\<rparr>"
  by (simp add: ENRManager_init_def run_defs eval_nat_numeral)

lemma update_manager_K_Q:
  "update manager_K [(''secp256k1'', ''Q'')] =
     (Inr \<lparr>sequence_number = 2, kv_pairs = [(''id'', ''v4''), (''secp256k1'', ''Q'')],
            signature = ''k++''\<rparr>,
      manager_K\<lparr>
        calls := calls manager_K @
          [ToSignedEnr \<lparr>sequence_number = 2,
             kv_pairs = [(''id'', ''v4''), (''secp256k1'', ''Q'')]\<rparr>,
           SetEnr \<lparr>sequence_number = 2,
             kv_pairs = [(''id'', ''v4''), (''secp256k1'', ''Q'')], signature = ''k++''\<rparr>],
        enr := \<lparr>sequence_number = 2, kv_pairs = [(''id'', ''v4''), (''secp256k1'', ''Q'')],
                 signature = ''k++''\<rparr>,
        node_db := (node_db manager_K)(''node-Q'' \<mapsto>
           \<lparr>sequence_number = 2, kv_pairs = [(''id'', ''v4''), (''secp256k1'', ''Q'')],
            signature = ''k++''\<rparr>)\<rparr>)"
  by (simp add: run_defs numeral_2_eq_2)

lemma update_manager5_foo:
  "update manager5 [(''foo'', ''bar'')] =
     (Inr \<lparr>sequence_number = 6,
            kv_pairs = [(''id'', ''v4-compat''), (''secp256k1'', ''P''), (''foo'', ''bar'')],
            signature = ''k++++++''\<rparr>,
      manager5\<lparr>
        calls := [ToSignedEnr \<lparr>sequence_number = 6,
             kv_pairs = [(''id'', ''v4-compat''), (''secp256k1'', ''P''), (''foo'', ''bar'')]\<rparr>,
           SetEnr \<lparr>sequence_number = 6,
             kv_pairs = [(''id'', ''v4-compat''), (''secp256k1'', ''P''), (''foo'', ''bar'')],
             signature = ''k++++++''\<rparr>],
        enr := \<lparr>sequence_number = 6,
            kv_pairs = [(''id'', ''v4-compat''), (''secp256k1'', ''P''), (''foo'', ''bar'')],
            signature = ''k++++++''\<rparr>,
        node_db := db5(''node-P'' \<mapsto> \<lparr>sequence_number = 6,
            kv_pairs = [(''id'', ''v4-compat''), (''secp256k1'', ''P''), (''foo'', ''bar'')],
            signature = ''k++++++''\<rparr>)\<rparr>)"
  by (simp add: run_defs eval_nat_numeral)

lemma can_sign_toy:
  assumes "d ''id'' = Some ''v4'' \<or> d ''id'' = Some ''v4-compat''" and "d ''secp256k1'' \<noteq> None"
  shows "can_sign toy_registry ''k'' d"
proof -
  have s: "\<forall>u. sign toy_scheme u ''k'' \<noteq> None"
    by (simp add: toy_scheme_def)
  have r: "toy_registry ''v4'' = Some toy_scheme" "toy_registry ''v4-compat'' = Some toy_scheme"
    by (simp_all add: toy_registry_def)
  from assms(1) r obtain name where "d ''id'' = Some name" "toy_registry name = Some toy_scheme"
    by blast
  with s assms(2) show ?thesis
    unfolding can_sign_def by blast
qed

lemma manager_foo_eq:
  "manager_foo =
     manager_K\<lparr>
        calls := calls manager_K @
          [ToSignedEnr \<lparr>sequence_number = 2,
             kv_pairs = [(''id'', ''v4''), (''secp256k1'', ''P''), (''foo'', ''bar'')]\<rparr>,
           SetEnr \<lparr>sequence_number = 2,
             kv_pairs = [(''id'', ''v4''), (''secp256k1'', ''P''), (''foo'', ''bar'')],
             signature = ''k++''\<rparr>],
        enr := \<lparr>sequence_number = 2,
            kv_pairs = [(''id'', ''v4''), (''secp256k1'', ''P''), (''foo'', ''bar'')],
            signature = ''k++''\<rparr>,
        node_db := (node_db manager_K)(''node-P'' \<mapsto> \<lparr>sequence_number = 2,
            kv_pairs = [(''id'', ''v4''), (''secp256k1'', ''P''), (''foo'', ''bar'')],
            signature = ''k++''\<rparr>)\<rparr>"
  by (simp add: manager_foo_def update_manager_K_foo)

lemma update_manager_foo_baz:
  "fst (update manager_foo [(''foo'', ''baz'')]) =
     Inr \<lparr>sequence_number = 3,
          kv_pairs = [(''id'', ''v4''), (''secp256k1'', ''P''), (''foo'', ''baz'')],
          signature = ''k+++''\<rparr>"
  "enr (snd (update manager_foo [(''foo'', ''baz'')])) =
     \<lparr>sequence_number = 3,
      kv_pairs = [(''id'', ''v4''), (''secp256k1'', ''P''), (''foo'', ''baz'')],
      signature = ''k+++''\<rparr>"
  by (simp_all add: manager_foo_eq) (simp_all add: run_defs eval_nat_numeral)

section \<open>Idempotence of update\<close>

text \<open>
  C2. When every supplied pair is present in the current record with an equal value,
  \<^verbatim>\<open>update\<close> returns the current record and leaves the whole state of the manager as
  it was: the record (its sequence number and signature), the store and the call log, so
  that nothing was signed and nothing was written.
\<close>

theorem update_idempotent:
  assumes "\<forall>(k, v) \<in> set ps. map_of (kv_pairs (enr m)) k = Some v"
  shows "update m ps = (Inr (enr m), m)"
proof -
  have "\<not> differs (enr m) ps"
    using assms by (auto simp: differs_iff)
  then show ?thesis by (simp add: update_def)
qed

theorem update_idempotent_witness:
  "map_of (kv_pairs (enr manager_K)) ''secp256k1'' = Some ''P''
   \<and> update manager_K [(''secp256k1'', ''P'')] = (Inr (enr manager_K), manager_K)"
  using update_idempotent [of "[(''secp256k1'', ''P'')]" manager_K]
  by (simp add: manager_K_def enr_K_def)

section \<open>Monotonicity of the sequence number\<close>

text \<open>
  C3. An \<^verbatim>\<open>update\<close> call that finds a difference, on a manager whose signer works for
  the merged record, returns a record, which is the new current record and has the
  previous sequence number plus 1. Whatever the signer does: a call that finds a
  difference and returns a record returns the new current record with the previous
  sequence number plus 1, after any call the sequence number is the previous one or the
  previous one plus 1, and after a sequence of calls it is the initial one plus the
  number of calls that found a difference and returned. With a working signer and no pair
  under \<^verbatim>\<open>b"id"\<close>, the sequence number after a sequence of calls is the initial one plus
  the number of calls the spec counts as effective on the pairs of the record, so it
  never decreases and never skips a value.
\<close>

theorem update_sequence_number_monotone:
  "(differs (enr m) ps \<and>
      can_sign (identity_scheme_registry m) (to_bytes (private_key m))
        (map_of (kv_pairs (enr m)) ++ map_of (rev ps)) \<longrightarrow>
      (\<exists>e m'. update m ps = (Inr e, m') \<and> enr m' = e
         \<and> sequence_number e = sequence_number (enr m) + 1))
   \<and> (\<forall>e m'. update m ps = (Inr e, m') \<and> differs (enr m) ps \<longrightarrow>
       enr m' = e \<and> sequence_number e = sequence_number (enr m) + 1)
   \<and> (sequence_number (enr (snd (update m ps))) = sequence_number (enr m)
        \<or> sequence_number (enr (snd (update m ps))) = sequence_number (enr m) + 1)
   \<and> sequence_number (enr (update_calls m css)) =
       sequence_number (enr m) + int (effective_count m css)
   \<and> (can_sign (identity_scheme_registry m) (to_bytes (private_key m))
         (map_of (kv_pairs (enr m))) \<and>
       (\<forall>ps \<in> set css. \<forall>(k, v) \<in> set ps. k \<noteq> ''id'') \<longrightarrow>
        sequence_number (enr (update_calls m css)) =
          sequence_number (enr m) + int (count_effective (kv_pairs (enr m)) css))"
proof -
  have p1: "differs (enr m) ps \<and>
      can_sign (identity_scheme_registry m) (to_bytes (private_key m))
        (map_of (kv_pairs (enr m)) ++ map_of (rev ps)) \<longrightarrow>
      (\<exists>e m'. update m ps = (Inr e, m') \<and> enr m' = e
         \<and> sequence_number e = sequence_number (enr m) + 1)"
    using update_returns [of m ps] by blast
  have p2: "\<forall>e m'. update m ps = (Inr e, m') \<and> differs (enr m) ps \<longrightarrow>
       enr m' = e \<and> sequence_number e = sequence_number (enr m) + 1"
  proof (intro allI impI)
    fix e m'
    assume h: "update m ps = (Inr e, m') \<and> differs (enr m) ps"
    then have d: "differs (enr m) ps" and u: "update m ps = (Inr e, m')" by simp_all
    have "enr m' = e"
    proof (cases "to_signed_enr (identity_scheme_registry m) (new_unsigned_enr m ps)
           (to_bytes (private_key m))")
      case (Inl er)
      show ?thesis using update_failed [OF d Inl] u by simp
    next
      case (Inr new)
      from update_signed [OF d Inr] u show ?thesis by auto
    qed
    moreover have "sequence_number e = sequence_number (enr m) + 1"
      using update_sequence_number_cases [of m ps] u d \<open>enr m' = e\<close> by simp
    ultimately show "enr m' = e \<and> sequence_number e = sequence_number (enr m) + 1" by simp
  qed
  have p3: "sequence_number (enr (snd (update m ps))) = sequence_number (enr m)
        \<or> sequence_number (enr (snd (update m ps))) = sequence_number (enr m) + 1"
    using update_sequence_number_cases [of m ps] by (simp split: if_splits)
  have p4: "sequence_number (enr (update_calls m css)) =
       sequence_number (enr m) + int (effective_count m css)"
  proof (induction css arbitrary: m)
    case Nil
    show ?case by simp
  next
    case (Cons ps css)
    show ?case
      using Cons.IH [of "snd (update m ps)"] update_sequence_number_cases [of m ps]
      by simp
  qed
  have p5: "can_sign (identity_scheme_registry m) (to_bytes (private_key m))
         (map_of (kv_pairs (enr m))) \<and>
       (\<forall>ps \<in> set css. \<forall>(k, v) \<in> set ps. k \<noteq> ''id'') \<longrightarrow>
        sequence_number (enr (update_calls m css)) =
          sequence_number (enr m) + int (count_effective (kv_pairs (enr m)) css)"
    using update_calls_count [of m css] by blast
  show ?thesis
    by (intro conjI) (rule p1 p2 p3 p4 p5)+
qed

theorem update_sequence_number_monotone_witness:
  "sequence_number (enr manager5) = 5
   \<and> differs (enr manager5) [(''foo'', ''bar'')]
   \<and> can_sign (identity_scheme_registry manager5) (to_bytes (private_key manager5))
        (map_of (kv_pairs (enr manager5)) ++ map_of (rev [(''foo'', ''bar'')]))
   \<and> (\<exists>e m'. update manager5 [(''foo'', ''bar'')] = (Inr e, m') \<and> enr m' = e
         \<and> sequence_number e = 6)
   \<and> can_sign (identity_scheme_registry manager5) (to_bytes (private_key manager5))
        (map_of (kv_pairs (enr manager5)))
   \<and> count_effective (kv_pairs (enr manager5))
        [[(''foo'', ''bar'')], [(''foo'', ''bar'')], [(''secp256k1'', ''P''), (''foo'', ''baz'')]] = 2
   \<and> sequence_number (enr (update_calls manager5
        [[(''foo'', ''bar'')], [(''foo'', ''bar'')], [(''secp256k1'', ''P''), (''foo'', ''baz'')]])) = 7"
proof -
  let ?css = "[[(''foo'', ''bar'')], [(''foo'', ''bar'')], [(''secp256k1'', ''P''), (''foo'', ''baz'')]]"
  note t = update_sequence_number_monotone [of manager5 "[(''foo'', ''bar'')]" ?css]
  have s5: "sequence_number (enr manager5) = 5"
    by (simp add: manager5_def base5_def)
  have d: "differs (enr manager5) [(''foo'', ''bar'')]"
    by (simp add: run_defs)
  have r: "identity_scheme_registry manager5 = toy_registry" "to_bytes (private_key manager5) = ''k''"
    by (simp_all add: manager5_def key_K_def)
  have c1: "can_sign (identity_scheme_registry manager5) (to_bytes (private_key manager5))
        (map_of (kv_pairs (enr manager5)) ++ map_of (rev [(''foo'', ''bar'')]))"
    unfolding r by (rule can_sign_toy) (simp_all add: manager5_def base5_def map_add_def)
  have c0: "can_sign (identity_scheme_registry manager5) (to_bytes (private_key manager5))
        (map_of (kv_pairs (enr manager5)))"
    unfolding r by (rule can_sign_toy) (simp_all add: manager5_def base5_def)
  have noid: "\<forall>ps \<in> set ?css. \<forall>(k, v) \<in> set ps. k \<noteq> ''id''"
    by simp
  have cnt: "count_effective (kv_pairs (enr manager5)) ?css = 2"
    by (simp add: manager5_def base5_def merge_def dict_def dict_update_def dict_setitem_def)
  note t1 = t [THEN conjunct1]
  note t5 = t [THEN conjunct2, THEN conjunct2, THEN conjunct2, THEN conjunct2]
  from t1 d c1 obtain e m' where "update manager5 [(''foo'', ''bar'')] = (Inr e, m')"
    and "enr m' = e" and "sequence_number e = sequence_number (enr manager5) + 1"
    by blast
  then have a: "\<exists>e m'. update manager5 [(''foo'', ''bar'')] = (Inr e, m') \<and> enr m' = e
         \<and> sequence_number e = 6"
    using s5 by auto
  from t5 c0 noid have "sequence_number (enr (update_calls manager5 ?css)) =
          sequence_number (enr manager5) + int (count_effective (kv_pairs (enr manager5)) ?css)"
    by (rule mp [OF _ conjI])
  then have "sequence_number (enr (update_calls manager5 ?css)) = 5 + int 2"
    by (simp only: s5 cnt)
  then have b: "sequence_number (enr (update_calls manager5 ?css)) = 7"
    by simp
  show ?thesis
    by (intro conjI) (rule s5 d c1 a c0 cnt b)+
qed

section \<open>Merge correctness of update\<close>

text \<open>
  C4. When the pair \<open>(k, v)\<close> is not in the current record and the signer works for the
  merged record, \<^verbatim>\<open>update\<close> with that single pair returns a record, which is the new
  current record; its pairs are those of the previous record with \<open>k\<close> mapped to \<open>v\<close>,
  so every other key keeps its value: when \<open>k\<close> was absent the pair is added behind the
  previous pairs, and when \<open>k\<close> was present the keys are the previous ones and only the
  value of \<open>k\<close> changes. Whatever the signer does, a call that finds a difference and
  returns a record returns such a record.
\<close>

theorem update_merge_single:
  "(map_of (kv_pairs (enr m)) k \<noteq> Some v \<and>
      can_sign (identity_scheme_registry m) (to_bytes (private_key m))
        ((map_of (kv_pairs (enr m)))(k \<mapsto> v)) \<longrightarrow>
      (\<exists>e m'. update m [(k, v)] = (Inr e, m') \<and> enr m' = e
         \<and> kv_pairs e = AList.update k v (kv_pairs (enr m))
         \<and> map_of (kv_pairs e) = (map_of (kv_pairs (enr m)))(k \<mapsto> v)
         \<and> (map_of (kv_pairs (enr m)) k = None \<longrightarrow>
               kv_pairs e = kv_pairs (enr m) @ [(k, v)])
         \<and> (map_of (kv_pairs (enr m)) k \<noteq> None \<longrightarrow>
               map fst (kv_pairs e) = map fst (kv_pairs (enr m)))))
   \<and> (\<forall>e m'. update m [(k, v)] = (Inr e, m') \<and> differs (enr m) [(k, v)] \<longrightarrow>
        enr m' = e
        \<and> kv_pairs e = AList.update k v (kv_pairs (enr m))
        \<and> map_of (kv_pairs e) = (map_of (kv_pairs (enr m)))(k \<mapsto> v)
        \<and> (map_of (kv_pairs (enr m)) k = None \<longrightarrow>
              kv_pairs e = kv_pairs (enr m) @ [(k, v)])
        \<and> (map_of (kv_pairs (enr m)) k \<noteq> None \<longrightarrow>
              map fst (kv_pairs e) = map fst (kv_pairs (enr m))))"
proof -
  have rest: "map_of (kv_pairs e) = (map_of (kv_pairs (enr m)))(k \<mapsto> v)
        \<and> (map_of (kv_pairs (enr m)) k = None \<longrightarrow>
              kv_pairs e = kv_pairs (enr m) @ [(k, v)])
        \<and> (map_of (kv_pairs (enr m)) k \<noteq> None \<longrightarrow>
              map fst (kv_pairs e) = map fst (kv_pairs (enr m)))"
    if "kv_pairs e = AList.update k v (kv_pairs (enr m))" for e :: ENR
    using that by (simp add: update_conv' update_absent_appends update_present_keys)
  have p2: "\<forall>e m'. update m [(k, v)] = (Inr e, m') \<and> differs (enr m) [(k, v)] \<longrightarrow>
        enr m' = e
        \<and> kv_pairs e = AList.update k v (kv_pairs (enr m))
        \<and> map_of (kv_pairs e) = (map_of (kv_pairs (enr m)))(k \<mapsto> v)
        \<and> (map_of (kv_pairs (enr m)) k = None \<longrightarrow>
              kv_pairs e = kv_pairs (enr m) @ [(k, v)])
        \<and> (map_of (kv_pairs (enr m)) k \<noteq> None \<longrightarrow>
              map fst (kv_pairs e) = map fst (kv_pairs (enr m)))"
  proof (intro allI impI)
    fix e m'
    assume "update m [(k, v)] = (Inr e, m') \<and> differs (enr m) [(k, v)]"
    then have r: "enr m' = e \<and> kv_pairs e = AList.update k v (kv_pairs (enr m))"
      using update_single_result by blast
    with rest [of e] show "enr m' = e
        \<and> kv_pairs e = AList.update k v (kv_pairs (enr m))
        \<and> map_of (kv_pairs e) = (map_of (kv_pairs (enr m)))(k \<mapsto> v)
        \<and> (map_of (kv_pairs (enr m)) k = None \<longrightarrow>
              kv_pairs e = kv_pairs (enr m) @ [(k, v)])
        \<and> (map_of (kv_pairs (enr m)) k \<noteq> None \<longrightarrow>
              map fst (kv_pairs e) = map fst (kv_pairs (enr m)))"
      by simp
  qed
  have p1: "map_of (kv_pairs (enr m)) k \<noteq> Some v \<and>
      can_sign (identity_scheme_registry m) (to_bytes (private_key m))
        ((map_of (kv_pairs (enr m)))(k \<mapsto> v)) \<longrightarrow>
      (\<exists>e m'. update m [(k, v)] = (Inr e, m') \<and> enr m' = e
         \<and> kv_pairs e = AList.update k v (kv_pairs (enr m))
         \<and> map_of (kv_pairs e) = (map_of (kv_pairs (enr m)))(k \<mapsto> v)
         \<and> (map_of (kv_pairs (enr m)) k = None \<longrightarrow>
               kv_pairs e = kv_pairs (enr m) @ [(k, v)])
         \<and> (map_of (kv_pairs (enr m)) k \<noteq> None \<longrightarrow>
               map fst (kv_pairs e) = map fst (kv_pairs (enr m))))"
  proof (intro impI)
    assume h: "map_of (kv_pairs (enr m)) k \<noteq> Some v \<and>
      can_sign (identity_scheme_registry m) (to_bytes (private_key m))
        ((map_of (kv_pairs (enr m)))(k \<mapsto> v))"
    then have d: "differs (enr m) [(k, v)]"
      by (simp add: differs_single)
    have "map_of (kv_pairs (enr m)) ++ map_of (rev [(k, v)]) = (map_of (kv_pairs (enr m)))(k \<mapsto> v)"
      by simp
    with h have c: "can_sign (identity_scheme_registry m) (to_bytes (private_key m))
        (map_of (kv_pairs (enr m)) ++ map_of (rev [(k, v)]))"
      by simp
    from update_returns [OF d c] obtain e m' where
      u: "update m [(k, v)] = (Inr e, m')" and cur: "enr m' = e"
      and kv: "kv_pairs e = merge (kv_pairs (enr m)) (dict [(k, v)])"
      by blast
    have kv': "kv_pairs e = AList.update k v (kv_pairs (enr m))"
      using kv by (simp add: merge_dict_single)
    note r = rest [OF kv']
    show "\<exists>e m'. update m [(k, v)] = (Inr e, m') \<and> enr m' = e
         \<and> kv_pairs e = AList.update k v (kv_pairs (enr m))
         \<and> map_of (kv_pairs e) = (map_of (kv_pairs (enr m)))(k \<mapsto> v)
         \<and> (map_of (kv_pairs (enr m)) k = None \<longrightarrow>
               kv_pairs e = kv_pairs (enr m) @ [(k, v)])
         \<and> (map_of (kv_pairs (enr m)) k \<noteq> None \<longrightarrow>
               map fst (kv_pairs e) = map fst (kv_pairs (enr m)))"
      by (intro exI [of _ e] exI [of _ m'] conjI)
        (rule u cur kv' r [THEN conjunct1] r [THEN conjunct2, THEN conjunct1]
           r [THEN conjunct2, THEN conjunct2])+
  qed
  show ?thesis
    by (intro conjI) (rule p1 p2)+
qed

theorem update_merge_single_witness:
  "map_of (kv_pairs (enr manager_foo)) ''foo'' = Some ''bar''
   \<and> can_sign (identity_scheme_registry manager_foo) (to_bytes (private_key manager_foo))
        ((map_of (kv_pairs (enr manager_foo)))(''foo'' \<mapsto> ''baz''))
   \<and> (\<exists>e m'. update manager_foo [(''foo'', ''baz'')] = (Inr e, m') \<and> enr m' = e
         \<and> kv_pairs e = [(''id'', ''v4''), (''secp256k1'', ''P''), (''foo'', ''baz'')])
   \<and> map_of (kv_pairs (enr manager_K)) ''foo'' = None
   \<and> can_sign (identity_scheme_registry manager_K) (to_bytes (private_key manager_K))
        ((map_of (kv_pairs (enr manager_K)))(''foo'' \<mapsto> ''bar''))
   \<and> (\<exists>e m'. update manager_K [(''foo'', ''bar'')] = (Inr e, m') \<and> enr m' = e
         \<and> kv_pairs e = [(''id'', ''v4''), (''secp256k1'', ''P''), (''foo'', ''bar'')])"
proof -
  note t = update_merge_single [of manager_foo "''foo''" "''baz''", THEN conjunct1]
  note t0 = update_merge_single [of manager_K "''foo''" "''bar''", THEN conjunct1]
  have kvf: "kv_pairs (enr manager_foo) = [(''id'', ''v4''), (''secp256k1'', ''P''), (''foo'', ''bar'')]"
    by (simp add: manager_foo_eq)
  have kvK: "kv_pairs (enr manager_K) = [(''id'', ''v4''), (''secp256k1'', ''P'')]"
    by (simp add: manager_K_def enr_K_def)
  have rf: "identity_scheme_registry manager_foo = toy_registry"
    "to_bytes (private_key manager_foo) = ''k''"
    by (simp_all add: manager_foo_eq) (simp_all add: manager_K_def key_K_def)
  have rK: "identity_scheme_registry manager_K = toy_registry"
    "to_bytes (private_key manager_K) = ''k''"
    by (simp_all add: manager_K_def key_K_def)
  have a: "map_of (kv_pairs (enr manager_foo)) ''foo'' = Some ''bar''"
    by (simp add: kvf)
  have b: "can_sign (identity_scheme_registry manager_foo) (to_bytes (private_key manager_foo))
        ((map_of (kv_pairs (enr manager_foo)))(''foo'' \<mapsto> ''baz''))"
    unfolding rf by (rule can_sign_toy) (simp_all add: kvf)
  have ne: "map_of (kv_pairs (enr manager_foo)) ''foo'' \<noteq> Some ''baz''"
    by (simp add: kvf)
  from t ne b obtain e m' where "update manager_foo [(''foo'', ''baz'')] = (Inr e, m')"
    and "enr m' = e" and "kv_pairs e = AList.update ''foo'' ''baz'' (kv_pairs (enr manager_foo))"
    by blast
  then have c: "\<exists>e m'. update manager_foo [(''foo'', ''baz'')] = (Inr e, m') \<and> enr m' = e
         \<and> kv_pairs e = [(''id'', ''v4''), (''secp256k1'', ''P''), (''foo'', ''baz'')]"
    by (auto simp: kvf)
  have d: "map_of (kv_pairs (enr manager_K)) ''foo'' = None"
    by (simp add: kvK)
  have e: "can_sign (identity_scheme_registry manager_K) (to_bytes (private_key manager_K))
        ((map_of (kv_pairs (enr manager_K)))(''foo'' \<mapsto> ''bar''))"
    unfolding rK by (rule can_sign_toy) (simp_all add: kvK)
  have ne0: "map_of (kv_pairs (enr manager_K)) ''foo'' \<noteq> Some ''bar''"
    by (simp add: kvK)
  from t0 ne0 e obtain e0 m0 where "update manager_K [(''foo'', ''bar'')] = (Inr e0, m0)"
    and "enr m0 = e0" and "kv_pairs e0 = AList.update ''foo'' ''bar'' (kv_pairs (enr manager_K))"
    by blast
  then have f: "\<exists>e m'. update manager_K [(''foo'', ''bar'')] = (Inr e, m') \<and> enr m' = e
         \<and> kv_pairs e = [(''id'', ''v4''), (''secp256k1'', ''P''), (''foo'', ''bar'')]"
    by (auto simp: kvK)
  show ?thesis
    by (intro conjI) (rule a b c d e f)+
qed

section \<open>Failure of signing\<close>

text \<open>
  C8. When \<^verbatim>\<open>update\<close> finds a difference and signing the record it built fails, the
  error is the result of the call, the record was handed to the signing primitive once
  and nothing else happened: the current record and the store are as before. More
  generally, whenever \<^verbatim>\<open>update\<close> ends in an error, the current record and the store are
  unchanged.
\<close>

theorem update_failure_atomic:
  "(differs (enr m) ps \<and>
    to_signed_enr (identity_scheme_registry m) (new_unsigned_enr m ps)
       (to_bytes (private_key m)) = Inl er \<longrightarrow>
      update m ps = (Inl er, m\<lparr>calls := calls m @ [ToSignedEnr (new_unsigned_enr m ps)]\<rparr>))
   \<and> (isl (fst (update m ps)) \<longrightarrow>
        enr (snd (update m ps)) = enr m \<and> node_db (snd (update m ps)) = node_db m)"
  using update_failed [of m ps er] update_error_keeps [of m ps] by blast

theorem update_failure_atomic_witness:
  "differs (enr manager_bad) [(''foo'', ''bar'')]
   \<and> to_signed_enr (identity_scheme_registry manager_bad)
        (new_unsigned_enr manager_bad [(''foo'', ''bar'')])
        (to_bytes (private_key manager_bad)) = Inl SigningFailure
   \<and> update manager_bad [(''foo'', ''bar'')] =
        (Inl SigningFailure,
         manager_bad\<lparr>calls := calls manager_bad @
            [ToSignedEnr (new_unsigned_enr manager_bad [(''foo'', ''bar'')])]\<rparr>)
   \<and> enr (snd (update manager_bad [(''foo'', ''bar'')])) = enr manager_bad
   \<and> node_db (snd (update manager_bad [(''foo'', ''bar'')])) = node_db manager_bad"
proof -
  have d: "differs (enr manager_bad) [(''foo'', ''bar'')]"
    by (simp add: run_defs)
  have s: "to_signed_enr (identity_scheme_registry manager_bad)
        (new_unsigned_enr manager_bad [(''foo'', ''bar'')])
        (to_bytes (private_key manager_bad)) = Inl SigningFailure"
    by (simp add: run_defs)
  show ?thesis
    using update_failure_atomic
      [of manager_bad "[(''foo'', ''bar'')]" SigningFailure] d s
    by simp
qed

section \<open>Default injection at construction\<close>



section \<open>Creation\<close>

text \<open>
  C7. With the scheme \<^verbatim>\<open>b"v4"\<close> registered, signing of the minimal record succeeding
  and no record in the store under the derived identity, a construction with no initial
  pairs returns a manager whose current record has sequence number 1 and exactly the two
  pairs of the scheme name and the compressed public key, and the store is the previous
  one with that record under the derived identity.
\<close>

theorem creation_scenario:
  assumes "reg ''v4'' = Some s"
    and "sign s (minimal_unsigned_enr pk []) (to_bytes pk) = Some sg"
    and "db (derive_identity s (public_key_to_compressed_bytes pk)) = None"
  shows "ENRManager_init db pk None reg =
           Inr \<lparr>node_db = db(derive_identity s (public_key_to_compressed_bytes pk) \<mapsto>
                    \<lparr>sequence_number = 1,
                     kv_pairs = [(''id'', ''v4''),
                                 (''secp256k1'', public_key_to_compressed_bytes pk)],
                     signature = sg\<rparr>),
                enr = \<lparr>sequence_number = 1,
                       kv_pairs = [(''id'', ''v4''),
                                   (''secp256k1'', public_key_to_compressed_bytes pk)],
                       signature = sg\<rparr>,
                node_id = derive_identity s (public_key_to_compressed_bytes pk),
                identity_scheme_registry = reg, private_key = pk,
                calls = [ToSignedEnr (minimal_unsigned_enr pk []),
                         GetEnr (derive_identity s (public_key_to_compressed_bytes pk)),
                         SetEnr \<lparr>sequence_number = 1,
                           kv_pairs = [(''id'', ''v4''),
                                       (''secp256k1'', public_key_to_compressed_bytes pk)],
                           signature = sg\<rparr>]\<rparr>"
proof -
  let ?pub = "public_key_to_compressed_bytes pk"
  let ?me = "\<lparr>sequence_number = 1, kv_pairs = [(''id'', ''v4''), (''secp256k1'', ?pub)],
              signature = sg\<rparr>"
  have u: "minimal_unsigned_enr pk [] =
             \<lparr>sequence_number = 1, kv_pairs = [(''id'', ''v4''), (''secp256k1'', ?pub)]\<rparr>"
    by (simp add: minimal_unsigned_enr_def identity_kv_pairs_def dict_contains_def merge_def
        dict_update_def)
  have me: "to_signed_enr reg (minimal_unsigned_enr pk (caller_pairs None)) (to_bytes pk) = Inr ?me"
    using assms(1,2)
    by (simp add: u caller_pairs_def to_signed_enr_def pick_identity_scheme_def dict_contains_def)
  have n: "enr_node_id reg ?me = Inr (derive_identity s ?pub)"
    using assms(1) by (simp add: enr_node_id_def pick_identity_scheme_def)
  show ?thesis
    using init_created [where db = db, OF me n assms(3)] by (simp add: caller_pairs_def)
qed

theorem creation_scenario_witness:
  "toy_registry ''v4'' = Some toy_scheme
   \<and> sign toy_scheme (minimal_unsigned_enr key_K []) (to_bytes key_K) = Some ''k+''
   \<and> empty_db (derive_identity toy_scheme (public_key_to_compressed_bytes key_K)) = None
   \<and> ENRManager_init empty_db key_K None toy_registry = Inr manager_K
   \<and> sequence_number (enr manager_K) = 1
   \<and> kv_pairs (enr manager_K) = [(''id'', ''v4''), (''secp256k1'', ''P'')]
   \<and> node_db manager_K = [node_id manager_K \<mapsto> enr manager_K]"
proof -
  have a: "toy_registry ''v4'' = Some toy_scheme"
    by (simp add: toy_registry_def)
  have b: "sign toy_scheme (minimal_unsigned_enr key_K []) (to_bytes key_K) = Some ''k+''"
    by (simp add: run_defs)
  have c: "empty_db (derive_identity toy_scheme (public_key_to_compressed_bytes key_K)) = None"
    by (simp add: empty_db_def)
  show ?thesis
    using creation_scenario [of toy_registry toy_scheme key_K "''k+''" empty_db, OF a b c] a b c
    by (simp add: manager_K_def enr_K_def key_K_def toy_scheme_def empty_db_def
        minimal_unsigned_enr_def identity_kv_pairs_def dict_contains_def merge_def dict_update_def)
qed

section \<open>Reconciliation\<close>

text \<open>
  C1 says that, when the store holds a record for the derived identity, exactly the
  caller's original pairs are applied through \<^verbatim>\<open>update\<close> and the identity-scheme
  defaults are not asserted again. The source calls \<^verbatim>\<open>update\<close> with the pairs of the
  minimal record, which contain the injected defaults. Here the caller gives no pair and
  the stored record, of sequence number 5, names the scheme \<^verbatim>\<open>b"v4-compat"\<close>: applying
  the caller's pairs would return the stored record as it is, while the construction
  signs and stores a record of sequence number 6 that names \<^verbatim>\<open>b"v4"\<close>.
\<close>

theorem reconciliation_replays_defaults_counterexample:
  "get_enr db5 ''node-P'' = Some base5
   \<and> sequence_number base5 = 5
   \<and> kv_pairs base5 = [(''id'', ''v4-compat''), (''secp256k1'', ''P'')]
   \<and> caller_pairs None = []
   \<and> update \<lparr>node_db = db5, enr = base5, node_id = ''node-P'',
              identity_scheme_registry = toy_registry, private_key = key_K,
              calls = [ToSignedEnr (minimal_unsigned_enr key_K (caller_pairs None)),
                       GetEnr ''node-P'']\<rparr> (caller_pairs None)
       = (Inr base5,
          \<lparr>node_db = db5, enr = base5, node_id = ''node-P'',
           identity_scheme_registry = toy_registry, private_key = key_K,
           calls = [ToSignedEnr (minimal_unsigned_enr key_K (caller_pairs None)),
                    GetEnr ''node-P'']\<rparr>)
   \<and> ENRManager_init db5 key_K None toy_registry =
       Inr \<lparr>node_db = db5(''node-P'' \<mapsto>
              \<lparr>sequence_number = 6, kv_pairs = [(''id'', ''v4''), (''secp256k1'', ''P'')],
               signature = ''k++++++''\<rparr>),
          enr = \<lparr>sequence_number = 6, kv_pairs = [(''id'', ''v4''), (''secp256k1'', ''P'')],
                 signature = ''k++++++''\<rparr>,
          node_id = ''node-P'',
          identity_scheme_registry = toy_registry,
          private_key = key_K,
          calls = [ToSignedEnr \<lparr>sequence_number = 1,
                     kv_pairs = [(''id'', ''v4''), (''secp256k1'', ''P'')]\<rparr>,
                   GetEnr ''node-P'',
                   ToSignedEnr \<lparr>sequence_number = 6,
                     kv_pairs = [(''id'', ''v4''), (''secp256k1'', ''P'')]\<rparr>,
                   SetEnr \<lparr>sequence_number = 6,
                     kv_pairs = [(''id'', ''v4''), (''secp256k1'', ''P'')],
                     signature = ''k++++++''\<rparr>]\<rparr>"
proof -
  have "get_enr db5 ''node-P'' = Some base5"
    by (simp add: get_enr_def db5_def)
  moreover have "sequence_number base5 = 5"
    and "kv_pairs base5 = [(''id'', ''v4-compat''), (''secp256k1'', ''P'')]"
    by (simp_all add: base5_def)
  moreover have "caller_pairs None = []"
    by (simp add: caller_pairs_def)
  moreover have "update \<lparr>node_db = db5, enr = base5, node_id = ''node-P'',
              identity_scheme_registry = toy_registry, private_key = key_K,
              calls = [ToSignedEnr (minimal_unsigned_enr key_K (caller_pairs None)),
                       GetEnr ''node-P'']\<rparr> (caller_pairs None)
       = (Inr base5,
          \<lparr>node_db = db5, enr = base5, node_id = ''node-P'',
           identity_scheme_registry = toy_registry, private_key = key_K,
           calls = [ToSignedEnr (minimal_unsigned_enr key_K (caller_pairs None)),
                    GetEnr ''node-P'']\<rparr>)"
    by (simp add: update_def differs_def caller_pairs_def)
  ultimately show ?thesis
    using init_db5 by blast
qed

text \<open>
  C1, as the code has it. When the minimal record is signed and the store holds a record
  under its identity, the construction is the call of \<^verbatim>\<open>update\<close>, on the manager whose
  current record is the stored one, with the pairs of the minimal record: the injected
  defaults overridden by the caller's pairs. These are exactly the caller's pairs when
  the caller's mapping names the scheme under \<^verbatim>\<open>b"id"\<close> itself.
\<close>

theorem reconciliation_replays_minimal_record:
  assumes "to_signed_enr reg (minimal_unsigned_enr pk (caller_pairs kv_opt)) (to_bytes pk)
             = Inr minimal_enr"
    and "enr_node_id reg minimal_enr = Inr n"
    and "db n = Some base_enr"
  shows "ENRManager_init db pk kv_opt reg =
           (case update
                   \<lparr>node_db = db, enr = base_enr, node_id = n,
                    identity_scheme_registry = reg, private_key = pk,
                    calls = [ToSignedEnr (minimal_unsigned_enr pk (caller_pairs kv_opt)),
                             GetEnr n]\<rparr>
                   (merge (identity_kv_pairs pk (caller_pairs kv_opt)) (caller_pairs kv_opt)) of
              (Inl er, m') \<Rightarrow> Inl er
            | (Inr r, m') \<Rightarrow> Inr m')
         \<and> (dict_contains (caller_pairs kv_opt) ''id'' \<and> distinct (map fst (caller_pairs kv_opt))
              \<longrightarrow> merge (identity_kv_pairs pk (caller_pairs kv_opt)) (caller_pairs kv_opt)
                    = caller_pairs kv_opt)"
proof -
  have "kv_pairs minimal_enr =
          merge (identity_kv_pairs pk (caller_pairs kv_opt)) (caller_pairs kv_opt)"
    using to_signed_enr_fields(2) [OF assms(1)] by (simp add: minimal_unsigned_enr_def)
  then show ?thesis
    using init_found [where db = db, OF assms]
    by (simp add: identity_kv_pairs_def merge_empty_left)
qed

theorem reconciliation_replays_minimal_record_witness:
  "to_signed_enr toy_registry (minimal_unsigned_enr key_K (caller_pairs None)) (to_bytes key_K)
     = Inr enr_K
   \<and> enr_node_id toy_registry enr_K = Inr ''node-P''
   \<and> db5 ''node-P'' = Some base5
   \<and> merge (identity_kv_pairs key_K (caller_pairs None)) (caller_pairs None) =
        [(''id'', ''v4''), (''secp256k1'', ''P'')]
   \<and> ENRManager_init db5 key_K None toy_registry =
        (case update
                \<lparr>node_db = db5, enr = base5, node_id = ''node-P'',
                 identity_scheme_registry = toy_registry, private_key = key_K,
                 calls = [ToSignedEnr (minimal_unsigned_enr key_K (caller_pairs None)),
                          GetEnr ''node-P'']\<rparr>
                (merge (identity_kv_pairs key_K (caller_pairs None)) (caller_pairs None)) of
           (Inl er, m') \<Rightarrow> Inl er
         | (Inr r, m') \<Rightarrow> Inr m')"
proof -
  have a: "to_signed_enr toy_registry (minimal_unsigned_enr key_K (caller_pairs None))
             (to_bytes key_K) = Inr enr_K"
    by (simp add: run_defs)
  have b: "enr_node_id toy_registry enr_K = Inr ''node-P''"
    by (simp add: run_defs)
  have c: "db5 ''node-P'' = Some base5"
    by (simp add: db5_def)
  have d: "merge (identity_kv_pairs key_K (caller_pairs None)) (caller_pairs None) =
        [(''id'', ''v4''), (''secp256k1'', ''P'')]"
    by (simp add: run_defs)
  show ?thesis
    using reconciliation_replays_minimal_record [where db = db5, OF a b c] a b c d
    by blast
qed

text \<open>
  C6. With the scheme \<^verbatim>\<open>b"v4"\<close> registered and signing with the key succeeding, when
  the store holds under the identity derived from the key a record of sequence number 5
  in which \<^verbatim>\<open>b"foo"\<close> is not mapped to \<^verbatim>\<open>b"bar"\<close>, the construction with the single
  initial pair \<^verbatim>\<open>(b"foo", b"bar")\<close> returns a manager whose current record has
  sequence number 6, maps \<^verbatim>\<open>b"foo"\<close> to \<^verbatim>\<open>b"bar"\<close> and has every key of the stored
  record.
\<close>

theorem reconciliation_scenario:
  assumes reg: "reg ''v4'' = Some s"
    and sg: "\<forall>u. sign s u (to_bytes pk) \<noteq> None"
    and stored: "get_enr db (derive_identity s (public_key_to_compressed_bytes pk)) = Some base_enr"
    and seq: "sequence_number base_enr = 5"
    and foo: "map_of (kv_pairs base_enr) ''foo'' \<noteq> Some ''bar''"
  shows "\<exists>m. ENRManager_init db pk (Some [(''foo'', ''bar'')]) reg = Inr m
           \<and> sequence_number (enr m) = 6
           \<and> map_of (kv_pairs (enr m)) ''foo'' = Some ''bar''
           \<and> fst ` set (kv_pairs base_enr) \<subseteq> fst ` set (kv_pairs (enr m))"
proof -
  let ?pub = "public_key_to_compressed_bytes pk"
  let ?n = "derive_identity s ?pub"
  let ?kv = "[(''id'', ''v4''), (''secp256k1'', ?pub), (''foo'', ''bar'')]"
  let ?u = "minimal_unsigned_enr pk (caller_pairs (Some [(''foo'', ''bar'')]))"
  have u: "?u = \<lparr>sequence_number = 1, kv_pairs = ?kv\<rparr>"
    by (simp add: minimal_unsigned_enr_def identity_kv_pairs_def dict_contains_def merge_def
        dict_update_def dict_setitem_def caller_pairs_def)
  obtain sg0 where sg0: "sign s ?u (to_bytes pk) = Some sg0"
    using sg by blast
  let ?me = "\<lparr>sequence_number = 1, kv_pairs = ?kv, signature = sg0\<rparr>"
  have pick: "pick_identity_scheme reg (kv_pairs ?u) = Inr s"
    using reg by (simp add: u pick_identity_scheme_def)
  have "dict_contains (kv_pairs ?u) ''secp256k1''"
    by (simp add: u dict_contains_def)
  from to_signed_enr_ok [OF pick this sg0]
  have me: "to_signed_enr reg ?u (to_bytes pk) = Inr ?me"
    by (simp add: u)
  have n: "enr_node_id reg ?me = Inr ?n"
    using reg by (simp add: enr_node_id_def pick_identity_scheme_def)
  have found: "db ?n = Some base_enr"
    using stored by (simp add: get_enr_def)
  let ?m0 = "\<lparr>node_db = db, enr = base_enr, node_id = ?n,
               identity_scheme_registry = reg, private_key = pk,
               calls = [ToSignedEnr ?u, GetEnr ?n]\<rparr>"
  have init: "ENRManager_init db pk (Some [(''foo'', ''bar'')]) reg =
           (case update ?m0 ?kv of (Inl er, m') \<Rightarrow> Inl er | (Inr r, m') \<Rightarrow> Inr m')"
    using init_found [where db = db, OF me n found] by simp
  have d: "differs (enr ?m0) ?kv"
    using foo by (simp add: differs_iff)
  let ?u' = "new_unsigned_enr ?m0 ?kv"
  have kv': "map_of (kv_pairs ?u') = map_of (kv_pairs base_enr) ++ map_of (rev ?kv)"
    by (simp add: new_unsigned_enr_def map_of_merge_dict)
  have pick': "pick_identity_scheme reg (kv_pairs ?u') = Inr s"
    using reg by (simp add: pick_identity_scheme_def kv')
  have pub': "dict_contains (kv_pairs ?u') ''secp256k1''"
    by (simp add: dict_contains_def kv')
  obtain sg1 where sg1: "sign s ?u' (to_bytes pk) = Some sg1"
    using sg by blast
  let ?new = "\<lparr>sequence_number = sequence_number ?u', kv_pairs = kv_pairs ?u', signature = sg1\<rparr>"
  have new: "to_signed_enr (identity_scheme_registry ?m0) ?u' (to_bytes (private_key ?m0)) = Inr ?new"
    using to_signed_enr_ok [OF pick' pub' sg1] by simp
  from update_signed [OF d new]
  obtain m' where upd: "update ?m0 ?kv = (Inr ?new, m')" and cur: "enr m' = ?new"
    by auto
  have "ENRManager_init db pk (Some [(''foo'', ''bar'')]) reg = Inr m'"
    using init upd by simp
  moreover have "sequence_number (enr m') = 6"
    using seq by (simp add: cur new_unsigned_enr_def)
  moreover have "map_of (kv_pairs (enr m')) ''foo'' = Some ''bar''"
    by (simp add: cur kv')
  moreover have "fst ` set (kv_pairs base_enr) \<subseteq> fst ` set (kv_pairs (enr m'))"
  proof -
    have "dom (map_of (kv_pairs base_enr)) \<subseteq> dom (map_of (kv_pairs (enr m')))"
      by (auto simp: cur kv')
    then show ?thesis by (simp add: dom_map_of_conv_image_fst)
  qed
  ultimately show ?thesis by blast
qed

theorem reconciliation_scenario_witness:
  "toy_registry ''v4'' = Some toy_scheme
   \<and> get_enr db5 (derive_identity toy_scheme (public_key_to_compressed_bytes key_K)) = Some base5
   \<and> sequence_number base5 = 5
   \<and> map_of (kv_pairs base5) ''foo'' \<noteq> Some ''bar''
   \<and> (\<exists>m. ENRManager_init db5 key_K (Some [(''foo'', ''bar'')]) toy_registry = Inr m
           \<and> sequence_number (enr m) = 6
           \<and> map_of (kv_pairs (enr m)) ''foo'' = Some ''bar''
           \<and> fst ` set (kv_pairs base5) \<subseteq> fst ` set (kv_pairs (enr m)))"
proof -
  have a: "toy_registry ''v4'' = Some toy_scheme"
    by (simp add: toy_registry_def)
  have b: "\<forall>u. sign toy_scheme u (to_bytes key_K) \<noteq> None"
    by (simp add: toy_scheme_def key_K_def)
  have c: "get_enr db5 (derive_identity toy_scheme (public_key_to_compressed_bytes key_K)) = Some base5"
    by (simp add: run_defs)
  have d: "sequence_number base5 = 5"
    by (simp add: base5_def)
  have e: "map_of (kv_pairs base5) ''foo'' \<noteq> Some ''bar''"
    by (simp add: base5_def)
  show ?thesis
    using reconciliation_scenario [of toy_registry toy_scheme key_K db5 base5, OF a b c d e] a c d e
    by blast
qed

section \<open>Write-through coherence\<close>

text \<open>
  C10 says that after the construction and after every \<^verbatim>\<open>update\<close> call the store holds
  the current record under the identity of the manager. \<^verbatim>\<open>set_enr\<close> files a record
  under the record's own identity, and \<^verbatim>\<open>update\<close> accepts a pair that replaces the
  public key: on the manager just built from \<open>key_K\<close>, the call with the pair
  \<^verbatim>\<open>(b"secp256k1", b"Q")\<close> returns a record of sequence number 2 that is stored under
  another identity, and the store still holds the record of sequence number 1 under the
  identity of the manager.
\<close>

theorem write_through_counterexample:
  "ENRManager_init empty_db key_K None toy_registry = Inr manager_K
   \<and> node_db manager_K (node_id manager_K) = Some (enr manager_K)
   \<and> fst (update manager_K [(''secp256k1'', ''Q'')]) =
        Inr \<lparr>sequence_number = 2, kv_pairs = [(''id'', ''v4''), (''secp256k1'', ''Q'')],
             signature = ''k++''\<rparr>
   \<and> enr (snd (update manager_K [(''secp256k1'', ''Q'')])) =
        \<lparr>sequence_number = 2, kv_pairs = [(''id'', ''v4''), (''secp256k1'', ''Q'')],
         signature = ''k++''\<rparr>
   \<and> node_id (snd (update manager_K [(''secp256k1'', ''Q'')])) = ''node-P''
   \<and> node_db (snd (update manager_K [(''secp256k1'', ''Q'')])) ''node-P'' =
        Some \<lparr>sequence_number = 1, kv_pairs = [(''id'', ''v4''), (''secp256k1'', ''P'')],
              signature = ''k+''\<rparr>
   \<and> node_db (snd (update manager_K [(''secp256k1'', ''Q'')]))
         (node_id (snd (update manager_K [(''secp256k1'', ''Q'')])))
       \<noteq> Some (enr (snd (update manager_K [(''secp256k1'', ''Q'')])))"
  by (simp add: init_manager_K update_manager_K_Q) (simp add: manager_K_def enr_K_def)

text \<open>
  C10, as the code has it. A construction that returns leaves the current record in the
  store under the identity of the manager, and that record derives this identity. An
  \<^verbatim>\<open>update\<close> call that starts with the current record in the store under the identity
  of the manager ends so as well, whether it returns a record or an error, provided the
  record that is current after the call derives the identity of the manager; this is the
  case when it was before the call and no supplied pair has the key \<^verbatim>\<open>b"id"\<close> or
  \<^verbatim>\<open>b"secp256k1"\<close>.
\<close>

theorem write_through_coherence:
  "(ENRManager_init db pk kv_opt reg = Inr m0 \<longrightarrow>
      node_db m0 (node_id m0) = Some (enr m0) \<and> enr_node_id reg (enr m0) = Inr (node_id m0))
   \<and> (node_db m (node_id m) = Some (enr m) \<and>
       enr_node_id (identity_scheme_registry m) (enr (snd (update m ps))) = Inr (node_id m) \<longrightarrow>
         node_db (snd (update m ps)) (node_id (snd (update m ps))) = Some (enr (snd (update m ps))))
   \<and> (enr_node_id (identity_scheme_registry m) (enr m) = Inr (node_id m) \<and>
       (\<forall>(k, v) \<in> set ps. k \<noteq> ''id'' \<and> k \<noteq> ''secp256k1'') \<longrightarrow>
         enr_node_id (identity_scheme_registry m) (enr (snd (update m ps))) = Inr (node_id m))"
  using init_keeps_entry [of db pk kv_opt reg m0] update_keeps_entry [of m ps]
    update_keeps_identity [of m ps]
  by blast

theorem write_through_coherence_witness:
  "ENRManager_init empty_db key_K None toy_registry = Inr manager_K
   \<and> node_db manager_K (node_id manager_K) = Some (enr manager_K)
   \<and> enr_node_id (identity_scheme_registry manager_K) (enr manager_K) = Inr (node_id manager_K)
   \<and> enr_node_id (identity_scheme_registry manager_K)
        (enr (snd (update manager_K [(''foo'', ''bar'')]))) = Inr (node_id manager_K)
   \<and> node_db (snd (update manager_K [(''foo'', ''bar'')]))
        (node_id (snd (update manager_K [(''foo'', ''bar'')])))
       = Some (enr (snd (update manager_K [(''foo'', ''bar'')])))"
proof -
  note t = write_through_coherence
    [of empty_db key_K None toy_registry manager_K manager_K "[(''foo'', ''bar'')]"]
  have a: "node_db manager_K (node_id manager_K) = Some (enr manager_K)"
    and b0: "enr_node_id toy_registry (enr manager_K) = Inr (node_id manager_K)"
    using t init_manager_K by blast+
  have r: "identity_scheme_registry manager_K = toy_registry"
    by (simp add: manager_K_def)
  have b: "enr_node_id (identity_scheme_registry manager_K) (enr manager_K) = Inr (node_id manager_K)"
    using b0 by (simp only: r)
  have "\<forall>(k, v) \<in> set [(''foo'', ''bar'')]. k \<noteq> ''id'' \<and> k \<noteq> ''secp256k1''"
    by simp
  with t b have c: "enr_node_id (identity_scheme_registry manager_K)
        (enr (snd (update manager_K [(''foo'', ''bar'')]))) = Inr (node_id manager_K)"
    by blast
  with t a have "node_db (snd (update manager_K [(''foo'', ''bar'')]))
        (node_id (snd (update manager_K [(''foo'', ''bar'')])))
       = Some (enr (snd (update manager_K [(''foo'', ''bar'')])))"
    by blast
  with a b c init_manager_K show ?thesis by blast
qed

end
